theory Spec2Isabelle
  imports Complex_Main "HOL-Library.AList"
begin

section \<open>Data model (utils/storage.ts)\<close>

text \<open>
  A JavaScript \<open>number\<close> is modelled as a rational: every finite double is one, and
  the arithmetic of the calculator (\<open>+\<close>, \<open>-\<close>, \<open>/\<close>, \<open>Math.min\<close>, \<open>Math.abs\<close>,
  comparison) is taken exactly, without binary rounding. \<open>NaN\<close> and the infinities
  are outside the model. The only rounding that remains is the decimal one the source
  asks for itself, \<open>toFixed(2)\<close>.
\<close>

type_synonym number = rat

text \<open>The object shape \<open>{ name: string; amount: number }\<close> of payers, debtors and creditors.\<close>

record entry =
  name :: string
  amount :: number

text \<open>
  \<open>getPayers\<close> takes its argument as \<open>any\<close> and looks at the run-time shape of
  \<open>paidBy\<close>: an array of payers, a single payer name (the older format), or anything else.
\<close>

datatype paidBy = PayerArray "entry list" | PayerString string | PayerOther

text \<open>
  Of an \<open>Expense\<close> the calculator reads \<open>amount\<close>, \<open>paidBy\<close> and \<open>splitBetween\<close>; the
  identifiers and dates of the stored record are never looked at.
\<close>

record expense =
  amount :: number
  paidBy :: paidBy
  splitBetween :: "string list"

text \<open>
  The object returned by \<open>calculateParticipantSummary\<close>, and the three accumulators
  it is computed from.
\<close>

record summary =
  totalPaid :: number
  totalOwed :: number
  netAmount :: number
  expenseCount :: nat
  isCreditor :: bool
  isDebtor :: bool
  isSettled :: bool

record totals =
  paid :: number
  owed :: number
  cnt :: nat

text \<open>
  \<open>Balance\<close>; the optional \<open>settledAt\<close> is an option. Several shapes have a field
  \<open>amount\<close> or \<open>isSettled\<close>: written alone the name is the field of \<open>Balance\<close>, and
  the others carry the name of their record (\<open>entry.amount\<close>, \<open>expense.amount\<close>,
  \<open>summary.isSettled\<close>).
\<close>

record balance =
  "from" :: string
  to :: string
  amount :: number
  isSettled :: bool
  settledAt :: "string option"

section \<open>Balance engine (utils/balanceCalculator.ts)\<close>

definition getPayers :: "expense \<Rightarrow> entry list" where
  "getPayers e =
     (case paidBy e of
        PayerArray ps \<Rightarrow> ps
      | PayerString n \<Rightarrow> [\<lparr>name = n, entry.amount = expense.amount e\<rparr>]
      | PayerOther \<Rightarrow> [])"

text \<open>\<open>Set.prototype.add\<close> on a set kept in insertion order.\<close>

definition setAdd :: "string list \<Rightarrow> string \<Rightarrow> string list" where
  "setAdd s x = (if x \<in> set s then s else s @ [x])"

text \<open>Lines 13-21: the participants in order of first appearance.\<close>

definition allParticipants :: "expense list \<Rightarrow> string list" where
  "allParticipants expenses =
     fold (\<lambda>e s. fold (\<lambda>participant s'. setAdd s' participant) (splitBetween e)
                    (fold (\<lambda>payer s'. setAdd s' (name payer)) (getPayers e) s))
          expenses []"

text \<open>
  A \<open>Map<string, number>\<close> is an association list in insertion order. \<open>Map.set\<close> is
  \<open>AList.update\<close>: an existing key keeps its place, a new key goes to the end.
  \<open>netAmounts.get(k) || 0\<close> is \<open>getOr0\<close>.
\<close>

type_synonym netMap = "(string \<times> number) list"

definition getOr0 :: "netMap \<Rightarrow> string \<Rightarrow> number" where
  "getOr0 m k = (case map_of m k of None \<Rightarrow> 0 | Some v \<Rightarrow> v)"

text \<open>Lines 22-23.\<close>

definition initNet :: "string list \<Rightarrow> netMap" where
  "initNet participants = fold (\<lambda>participant m. AList.update participant 0 m) participants []"

text \<open>
  Lines 25-40, the body for one expense. When \<open>splitBetween\<close> is empty the quotient
  \<open>splitAmount\<close> is computed (\<open>Infinity\<close> or \<open>NaN\<close> in the source, \<open>0\<close> here) but
  never used, since the second \<open>forEach\<close> has nothing to visit.
\<close>

definition applyExpense :: "expense \<Rightarrow> netMap \<Rightarrow> netMap" where
  "applyExpense e m =
     (let paidAmount = expense.amount e;
          splitAmount = paidAmount / of_nat (length (splitBetween e));
          m1 = fold (\<lambda>payer m'. AList.update (name payer)
                       (getOr0 m' (name payer) + entry.amount payer) m')
                    (getPayers e) m
      in fold (\<lambda>participant m'. AList.update participant
                       (getOr0 m' participant - splitAmount) m')
              (splitBetween e) m1)"

definition netAmounts :: "expense list \<Rightarrow> netMap" where
  "netAmounts expenses = fold applyExpense expenses (initNet (allParticipants expenses))"

text \<open>
  Lines 41-52: \<open>netAmounts.forEach\<close> pushes in map order, then both arrays are sorted
  by descending amount; \<open>Array.prototype.sort\<close> is stable, as \<open>sort_key\<close> is.
\<close>

definition debtorsOf :: "netMap \<Rightarrow> entry list" where
  "debtorsOf m =
     sort_key (\<lambda>d. - entry.amount d)
       (map (\<lambda>(participant, a). \<lparr>name = participant, entry.amount = \<bar>a\<bar>\<rparr>)
            (filter (\<lambda>(participant, a). a < 0) m))"

definition creditorsOf :: "netMap \<Rightarrow> entry list" where
  "creditorsOf m =
     sort_key (\<lambda>c. - entry.amount c)
       (map (\<lambda>(participant, a). \<lparr>name = participant, entry.amount = a\<rparr>)
            (filter (\<lambda>(participant, a). \<not> a < 0 \<and> a > 0) m))"

text \<open>
  \<open>parseFloat(x.toFixed(2))\<close>. \<open>toFixed\<close> works on the absolute value and puts the
  sign back; at or above \<open>10^21\<close> it prints the number itself; below, it takes the
  integer \<open>n\<close> with \<open>n / 100\<close> nearest to the value, the larger one on a tie.
\<close>

definition toFixed2 :: "number \<Rightarrow> number" where
  "toFixed2 x =
     (let a = \<bar>x\<bar>;
          r = (if a \<ge> 10 ^ 21 then a else of_int \<lfloor>a * 100 + 1 / 2\<rfloor> / 100)
      in if x < 0 then - r else r)"

text \<open>The variables of the matching loop, lines 53-55.\<close>

record loop_state =
  debtors :: "entry list"
  creditors :: "entry list"
  debtorIndex :: nat
  creditorIndex :: nat
  balances :: "balance list"

definition loopCond :: "loop_state \<Rightarrow> bool" where
  "loopCond s \<longleftrightarrow>
     debtorIndex s < length (debtors s) \<and> creditorIndex s < length (creditors s)"

text \<open>
  One iteration, lines 58-79. It runs under \<open>loopCond\<close>, so both array reads are in
  range. The two objects are mutated in place: the arrays are updated at the two indices.
\<close>

definition loopBody :: "loop_state \<Rightarrow> loop_state" where
  "loopBody s =
     (let debtor = debtors s ! debtorIndex s;
          creditor = creditors s ! creditorIndex s
      in if name debtor = name creditor
         then s\<lparr>debtorIndex := debtorIndex s + 1\<rparr>
         else
           let amt = min (entry.amount debtor) (entry.amount creditor);
               debtor' = debtor\<lparr>entry.amount := entry.amount debtor - amt\<rparr>;
               creditor' = creditor\<lparr>entry.amount := entry.amount creditor - amt\<rparr>
           in \<lparr>debtors = (debtors s)[debtorIndex s := debtor'],
               creditors = (creditors s)[creditorIndex s := creditor'],
               debtorIndex = (if entry.amount debtor' = 0 then debtorIndex s + 1 else debtorIndex s),
               creditorIndex = (if entry.amount creditor' = 0 then creditorIndex s + 1 else creditorIndex s),
               balances = balances s @
                 [\<lparr>from = name debtor, to = name creditor, amount = toFixed2 amt,
                   isSettled = False, settledAt = None\<rparr>]\<rparr>)"

text \<open>What is left of both arrays; it bounds the number of iterations still to come.\<close>

definition remaining :: "loop_state \<Rightarrow> nat" where
  "remaining s =
     (length (debtors s) - debtorIndex s) + (length (creditors s) - creditorIndex s)"

lemma length_loopBody:
  "length (debtors (loopBody s)) = length (debtors s)"
  "length (creditors (loopBody s)) = length (creditors s)"
  by (simp_all add: loopBody_def Let_def)

lemma min_leaves_zero: "a - min a b = 0 \<or> b - min a b = (0::rat)"
  by (simp add: min_def)

lemma loopBody_advances:
  "debtorIndex s \<le> debtorIndex (loopBody s)"
  "creditorIndex s \<le> creditorIndex (loopBody s)"
  "debtorIndex s + creditorIndex s < debtorIndex (loopBody s) + creditorIndex (loopBody s)"
  "debtorIndex (loopBody s) \<le> debtorIndex s + 1"
  "creditorIndex (loopBody s) \<le> creditorIndex s + 1"
  using min_leaves_zero [of "entry.amount (debtors s ! debtorIndex s)"
                            "entry.amount (creditors s ! creditorIndex s)"]
  by (auto simp add: loopBody_def Let_def)

lemma remaining_loopBody:
  assumes "loopCond s"
  shows "remaining (loopBody s) < remaining s"
  using assms loopBody_advances [of s]
  by (simp add: remaining_def loopCond_def length_loopBody) linarith

text \<open>The \<open>while\<close> loop of lines 57-80; it returns the state at exit.\<close>

function matchLoop :: "loop_state \<Rightarrow> loop_state" where
  "matchLoop s = (if loopCond s then matchLoop (loopBody s) else s)"
  by pat_completeness auto
termination
  by (relation "measure remaining") (simp_all add: remaining_loopBody)

declare matchLoop.simps [simp del]

text \<open>The loop variables as the loop is entered.\<close>

definition initialState :: "netMap \<Rightarrow> loop_state" where
  "initialState m =
     \<lparr>debtors = debtorsOf m, creditors = creditorsOf m,
      debtorIndex = 0, creditorIndex = 0, balances = []\<rparr>"

definition calculateBalances :: "expense list \<Rightarrow> balance list" where
  "calculateBalances expenses =
     (if length expenses = 0 then []
      else balances (matchLoop (initialState (netAmounts expenses))))"

text \<open>
  Lines 106-134. The three accumulators \<open>totalPaid\<close>, \<open>totalOwed\<close> and
  \<open>expenseCount\<close> are threaded through the two \<open>forEach\<close> loops.
\<close>

definition payerStep :: "string \<Rightarrow> entry \<Rightarrow> totals \<Rightarrow> totals" where
  "payerStep participantName payer acc =
     (if name payer = participantName
      then acc\<lparr>paid := paid acc + entry.amount payer, cnt := cnt acc + 1\<rparr>
      else acc)"

definition expenseStep :: "string \<Rightarrow> expense \<Rightarrow> totals \<Rightarrow> totals" where
  "expenseStep participantName e acc =
     (let acc1 = fold (payerStep participantName) (getPayers e) acc
      in if participantName \<in> set (splitBetween e)
         then acc1\<lparr>owed := owed acc1 + expense.amount e / of_nat (length (splitBetween e))\<rparr>
         else acc1)"

definition calculateParticipantSummary :: "expense list \<Rightarrow> string \<Rightarrow> summary" where
  "calculateParticipantSummary expenses participantName =
     (let acc = fold (expenseStep participantName) expenses \<lparr>paid = 0, owed = 0, cnt = 0\<rparr>;
          net = paid acc - owed acc
      in \<lparr>totalPaid = paid acc, totalOwed = owed acc, netAmount = net,
          expenseCount = cnt acc,
          isCreditor = (net > 0), isDebtor = (net < 0), summary.isSettled = (net = 0)\<rparr>)"

text \<open>
  What the specification says the summary holds, in its own words: the sum of the
  amounts paid by the name over all payer entries, the number of those entries, and
  the sum of the equal shares over the expenses whose split contains the name.
\<close>

definition spec_totalPaid :: "expense list \<Rightarrow> string \<Rightarrow> number" where
  "spec_totalPaid expenses n =
     (\<Sum>e\<leftarrow>expenses. \<Sum>p\<leftarrow>filter (\<lambda>p. name p = n) (getPayers e). entry.amount p)"

definition spec_expenseCount :: "expense list \<Rightarrow> string \<Rightarrow> nat" where
  "spec_expenseCount expenses n =
     (\<Sum>e\<leftarrow>expenses. length (filter (\<lambda>p. name p = n) (getPayers e)))"

definition spec_totalOwed :: "expense list \<Rightarrow> string \<Rightarrow> number" where
  "spec_totalOwed expenses n =
     (\<Sum>e\<leftarrow>filter (\<lambda>e. n \<in> set (splitBetween e)) expenses.
        expense.amount e / of_nat (length (splitBetween e)))"

section \<open>Settlement ledger\<close>

text \<open>
  \<open>new Date().toISOString()\<close> reads the clock. A call of \<open>markBalanceAsSettled\<close> gets
  the readings it will see as a function: \<open>clock k\<close> is the \<open>k\<close>-th one. The callback
  of \<open>map\<close> reads the clock once for every entry it settles.
\<close>

type_synonym clock = "nat \<Rightarrow> string"

fun markFrom :: "clock \<Rightarrow> nat \<Rightarrow> balance list \<Rightarrow> string \<Rightarrow> string \<Rightarrow> balance list" where
  "markFrom clk k [] f t = []"
| "markFrom clk k (b # bs) f t =
     (if from b = f \<and> to b = t \<and> \<not> isSettled b
      then b\<lparr>isSettled := True, settledAt := Some (clk k)\<rparr> # markFrom clk (Suc k) bs f t
      else b # markFrom clk k bs f t)"

definition markBalanceAsSettled :: "clock \<Rightarrow> balance list \<Rightarrow> string \<Rightarrow> string \<Rightarrow> balance list" where
  "markBalanceAsSettled clk bs f t = markFrom clk 0 bs f t"

definition getSettledBalances :: "balance list \<Rightarrow> balance list" where
  "getSettledBalances bs = filter (\<lambda>b. isSettled b) bs"

definition getUnsettledBalances :: "balance list \<Rightarrow> balance list" where
  "getUnsettledBalances bs = filter (\<lambda>b. \<not> isSettled b) bs"



section \<open>Notions the properties are stated with\<close>


text \<open>
  The net position of a participant is the entry of the map \<open>netAmounts\<close> built in
  lines 22-40; a name that is not a key has net position \<open>0\<close>.
\<close>

definition netPosition :: "expense list \<Rightarrow> string \<Rightarrow> number" where
  "netPosition expenses p = getOr0 (netAmounts expenses) p"







subsection \<open>Example inputs\<close>






section \<open>The matching loop\<close>













section \<open>Termination\<close>



section \<open>The empty expense list\<close>

text \<open>
  C5. \<open>calculateBalances\<close> applied to the empty expense list returns the empty list
  of debts.
\<close>

theorem calculateBalances_empty: "calculateBalances [] = []"
  by (simp add: calculateBalances_def)

section \<open>The number of debts\<close>







section \<open>The debts that are emitted\<close>
















section \<open>Reconciliation of the net positions\<close>

subsection \<open>The map of net amounts\<close>






lemma values_update: "snd ` set (AList.update k v m) \<subseteq> insert v (snd ` set m)"
  by (induction m) auto

lemma values_initNet:
  "snd ` set m \<subseteq> {0} \<Longrightarrow>
   snd ` set (fold (\<lambda>participant m. AList.update participant (0::rat) m) ps m) \<subseteq> {0}"
proof (induction ps arbitrary: m)
  case Nil
  then show ?case by simp
next
  case (Cons p ps)
  have "snd ` set (AList.update p 0 m) \<subseteq> {0}"
    using values_update [of p 0 m] Cons.prems by auto
  from Cons.IH [OF this] show ?case by simp
qed








subsection \<open>Sums over the two arrays\<close>















subsection \<open>The rounding\<close>


subsection \<open>What one participant has been charged so far\<close>








subsection \<open>With valid expenses the loop settles everybody\<close>
















section \<open>The participant summary\<close>

lemma fold_payerStep:
  "fold (payerStep n) ps acc =
     acc\<lparr>paid := paid acc + (\<Sum>p\<leftarrow>filter (\<lambda>p. name p = n) ps. entry.amount p),
         cnt := cnt acc + length (filter (\<lambda>p. name p = n) ps)\<rparr>"
  by (induction ps arbitrary: acc) (simp_all add: payerStep_def)

lemma fold_expenseStep:
  "fold (expenseStep n) es acc =
     \<lparr>paid = paid acc + spec_totalPaid es n,
      owed = owed acc + spec_totalOwed es n,
      cnt = cnt acc + spec_expenseCount es n\<rparr>"
proof (induction es arbitrary: acc)
  case Nil
  show ?case by (simp add: spec_totalPaid_def spec_totalOwed_def spec_expenseCount_def)
next
  case (Cons e es)
  have step: "paid (expenseStep n e acc) =
                paid acc + (\<Sum>p\<leftarrow>filter (\<lambda>p. name p = n) (getPayers e). entry.amount p)"
    "cnt (expenseStep n e acc) = cnt acc + length (filter (\<lambda>p. name p = n) (getPayers e))"
    "owed (expenseStep n e acc) =
       owed acc + (if n \<in> set (splitBetween e)
                   then expense.amount e / of_nat (length (splitBetween e)) else 0)"
    by (simp_all add: expenseStep_def fold_payerStep Let_def)
  have "fold (expenseStep n) (e # es) acc = fold (expenseStep n) es (expenseStep n e acc)"
    by simp
  also have "\<dots> = \<lparr>paid = paid (expenseStep n e acc) + spec_totalPaid es n,
      owed = owed (expenseStep n e acc) + spec_totalOwed es n,
      cnt = cnt (expenseStep n e acc) + spec_expenseCount es n\<rparr>"
    by (rule Cons.IH)
  also have "\<dots> = \<lparr>paid = paid acc + spec_totalPaid (e # es) n,
      owed = owed acc + spec_totalOwed (e # es) n,
      cnt = cnt acc + spec_expenseCount (e # es) n\<rparr>"
    by (simp add: step spec_totalPaid_def spec_totalOwed_def spec_expenseCount_def)
  finally show ?case .
qed




subsection \<open>The net position and the summary\<close>

text \<open>
  When no name is listed twice in a \<open>splitBetween\<close>, the entry of the map of net
  amounts is the net amount of the participant summary: what the participant paid
  minus the shares the participant owes.
\<close>

lemma getOr0_update: "getOr0 (AList.update k v m) p = (if p = k then v else getOr0 m p)"
  by (simp add: getOr0_def update_conv')

lemma getOr0_fold_payers:
  "getOr0 (fold (\<lambda>payer m'. AList.update (name payer)
                       (getOr0 m' (name payer) + entry.amount payer) m') ps m) p
     = getOr0 m p + (\<Sum>x\<leftarrow>filter (\<lambda>x. name x = p) ps. entry.amount x)"
  by (induction ps arbitrary: m) (simp_all add: getOr0_update)

lemma getOr0_fold_split:
  "getOr0 (fold (\<lambda>participant m'. AList.update participant
                       (getOr0 m' participant - c) m') qs m) p
     = getOr0 m p - of_nat (count_list qs p) * c"
  by (induction qs arbitrary: m) (simp_all add: getOr0_update algebra_simps)

lemma count_list_distinct: "distinct qs \<Longrightarrow> count_list qs p = (if p \<in> set qs then 1 else 0)"
  by (induction qs) auto

lemma getOr0_applyExpense:
  assumes "distinct (splitBetween e)"
  shows "getOr0 (applyExpense e m) p =
           getOr0 m p + (\<Sum>x\<leftarrow>filter (\<lambda>x. name x = p) (getPayers e). entry.amount x)
             - (if p \<in> set (splitBetween e)
                then expense.amount e / of_nat (length (splitBetween e)) else 0)"
  using assms
  by (simp add: applyExpense_def Let_def getOr0_fold_split getOr0_fold_payers count_list_distinct)

lemma getOr0_fold_applyExpense:
  assumes "\<forall>e \<in> set es. distinct (splitBetween e)"
  shows "getOr0 (fold applyExpense es m) p
           = getOr0 m p + spec_totalPaid es p - spec_totalOwed es p"
  using assms
proof (induction es arbitrary: m)
  case Nil
  show ?case by (simp add: spec_totalPaid_def spec_totalOwed_def)
next
  case (Cons e es)
  then show ?case
    by (simp add: getOr0_applyExpense spec_totalPaid_def spec_totalOwed_def)
qed

lemma getOr0_zero_values: "snd ` set m \<subseteq> {0} \<Longrightarrow> getOr0 m p = 0"
  by (auto simp add: getOr0_def split: option.splits dest!: map_of_SomeD)

lemma getOr0_initNet: "getOr0 (initNet ps) p = 0"
  unfolding initNet_def by (rule getOr0_zero_values, rule values_initNet) simp

lemma netPosition_summary:
  assumes "\<forall>e \<in> set es. distinct (splitBetween e)"
  shows "netPosition es p = netAmount (calculateParticipantSummary es p)"
  using getOr0_fold_applyExpense [OF assms, of "initNet (allParticipants es)" p]
  by (simp add: netPosition_def netAmounts_def getOr0_initNet
      calculateParticipantSummary_def fold_expenseStep Let_def)

section \<open>The settlement ledger\<close>

lemma length_markFrom: "length (markFrom clk k bs f t) = length bs"
  by (induction bs arbitrary: k) simp_all

text \<open>
  The entry at a position is settled with the reading of the clock that follows the
  readings taken for the entries settled before it.
\<close>

lemma nth_markFrom:
  "i < length bs \<Longrightarrow>
   markFrom clk k bs f t ! i =
     (if from (bs ! i) = f \<and> to (bs ! i) = t \<and> \<not> isSettled (bs ! i)
      then (bs ! i)\<lparr>isSettled := True,
             settledAt := Some (clk (k + length (filter
               (\<lambda>b. from b = f \<and> to b = t \<and> \<not> isSettled b) (take i bs))))\<rparr>
      else bs ! i)"
proof (induction bs arbitrary: k i)
  case Nil
  then show ?case by simp
next
  case (Cons b bs)
  show ?case
  proof (cases i)
    case 0
    then show ?thesis by simp
  next
    case (Suc j)
    with Cons.prems have "j < length bs" by simp
    from Cons.IH [OF this] Suc show ?thesis by simp
  qed
qed

text \<open>
  C6. For every debt list and every pair \<open>(from, to)\<close>, \<open>markBalanceAsSettled\<close>
  returns a list of the same length and order in which every entry that matches
  \<open>from\<close> and \<open>to\<close> and is not yet settled is replaced by a copy with
  \<open>isSettled = true\<close> and \<open>settledAt\<close> set to a reading of the clock, and every other
  entry is returned as it is; \<open>from\<close>, \<open>to\<close> and \<open>amount\<close> are the same on every
  entry. The function is a \<open>map\<close> that builds new objects: its argument is a value
  here, and stays what it was.
\<close>

theorem markBalanceAsSettled_frame:
  "length (markBalanceAsSettled clk bs f t) = length bs \<and>
   (\<forall>i < length bs.
      (if from (bs ! i) = f \<and> to (bs ! i) = t \<and> \<not> isSettled (bs ! i)
       then \<exists>k. markBalanceAsSettled clk bs f t ! i =
                  (bs ! i)\<lparr>isSettled := True, settledAt := Some (clk k)\<rparr>
       else markBalanceAsSettled clk bs f t ! i = bs ! i) \<and>
      from (markBalanceAsSettled clk bs f t ! i) = from (bs ! i) \<and>
      to (markBalanceAsSettled clk bs f t ! i) = to (bs ! i) \<and>
      amount (markBalanceAsSettled clk bs f t ! i) = amount (bs ! i))"
  by (auto simp add: markBalanceAsSettled_def length_markFrom nth_markFrom)

text \<open>The two debts of scenario 1, of which the one from B to A is settled.\<close>

theorem markBalanceAsSettled_frame_witness:
  "markBalanceAsSettled (\<lambda>k. ''2024-01-01T00:00:00.000Z'')
     [\<lparr>from = ''B'', to = ''A'', amount = 100, isSettled = False, settledAt = None\<rparr>,
      \<lparr>from = ''C'', to = ''A'', amount = 100, isSettled = False, settledAt = None\<rparr>]
     ''B'' ''A'' ! 0 =
     \<lparr>from = ''B'', to = ''A'', amount = 100, isSettled = True,
      settledAt = Some ''2024-01-01T00:00:00.000Z''\<rparr>
   \<and> markBalanceAsSettled (\<lambda>k. ''2024-01-01T00:00:00.000Z'')
     [\<lparr>from = ''B'', to = ''A'', amount = 100, isSettled = False, settledAt = None\<rparr>,
      \<lparr>from = ''C'', to = ''A'', amount = 100, isSettled = False, settledAt = None\<rparr>]
     ''B'' ''A'' ! 1 =
     \<lparr>from = ''C'', to = ''A'', amount = 100, isSettled = False, settledAt = None\<rparr>"
  using markBalanceAsSettled_frame [of "\<lambda>k. ''2024-01-01T00:00:00.000Z''"
     "[\<lparr>from = ''B'', to = ''A'', amount = 100, isSettled = False, settledAt = None\<rparr>,
      \<lparr>from = ''C'', to = ''A'', amount = 100, isSettled = False, settledAt = None\<rparr>]"
     "''B''" "''A''"]
  by (simp add: All_less_Suc numeral_2_eq_2)

lemma markFrom_fixed:
  "\<forall>b \<in> set bs. \<not> (from b = f \<and> to b = t \<and> \<not> isSettled b) \<Longrightarrow> markFrom clk k bs f t = bs"
  by (induction bs arbitrary: k) auto

lemma markFrom_settled:
  "b \<in> set (markFrom clk k bs f t) \<Longrightarrow> \<not> (from b = f \<and> to b = t \<and> \<not> isSettled b)"
  by (induction bs arbitrary: k) (auto split: if_splits)

text \<open>
  C7. Applying \<open>markBalanceAsSettled\<close> twice with the same pair is idempotent: the
  second call, whatever the clock then shows, returns a list equal to its input, since
  the entries settled by the first call are no longer unsettled and pass through with
  their \<open>settledAt\<close>.
\<close>

theorem markBalanceAsSettled_idempotent:
  "markBalanceAsSettled clk2 (markBalanceAsSettled clk1 bs f t) f t
     = markBalanceAsSettled clk1 bs f t"
  unfolding markBalanceAsSettled_def
  by (rule markFrom_fixed) (blast dest: markFrom_settled)

text \<open>
  C8. For every debt list \<open>d\<close>, \<open>getSettledBalances d\<close> and \<open>getUnsettledBalances d\<close>
  have no entry in common, and together they hold exactly the entries of \<open>d\<close>.
\<close>

theorem settled_unsettled_partition:
  "set (getSettledBalances d) \<inter> set (getUnsettledBalances d) = {} \<and>
   set (getSettledBalances d) \<union> set (getUnsettledBalances d) = set d"
  by (auto simp add: getSettledBalances_def getUnsettledBalances_def)



end
